theory Spec2Isabelle
  imports Main "HOL-Library.Extended_Nat"
begin

section \<open>JavaScript values shared by the models\<close>

text \<open>
  Exceptions thrown by the modelled code: the \<open>TypeError\<close> the runtime raises (reading a
  property of \<open>null\<close>, iterating something that is not iterable) and \<open>new Error(msg)\<close>.
\<close>

datatype js_error = TypeError | Error string

text \<open>
  A result that may be \<open>undefined\<close> or \<open>null\<close>: \<open>Map.prototype.get\<close> answers
  \<open>undefined\<close> for a missing key, \<open>Collection.remove\<close> answers \<open>null\<close>.
\<close>

datatype 'v js = Undefined | Null | Val 'v

section \<open>Collection (class Collection extends Map)\<close>

text \<open>
  The built-in \<open>Map\<close> keeps its entries in insertion order, so the store is an association
  list with distinct keys, oldest entry first. The keys the class stores are the string ids
  of \<open>add\<close>. \<open>Map.prototype.delete\<close> accepts any value as its argument; the class
  calls it with a string (\<open>item.id\<close>, \<open>id\<close>) and with a freshly built array
  (\<open>[...this.keys()].slice(-1)\<close>). Keys are compared by SameValueZero, under which an array
  object equals only itself, so a fresh array equals no stored key.
\<close>

type_synonym 'v js_map = "(string \<times> 'v) list"

datatype js_key = KStr string | KArr "string list"

definition map_has :: "string \<Rightarrow> 'v js_map \<Rightarrow> bool" where
  "map_has k m = (map_of m k \<noteq> None)"

definition map_get :: "string \<Rightarrow> 'v js_map \<Rightarrow> 'v js" where
  "map_get k m = (case map_of m k of None \<Rightarrow> Undefined | Some v \<Rightarrow> Val v)"

text \<open>\<open>Map.prototype.set\<close>: an existing key keeps its place, a new key goes last.\<close>

fun map_set :: "string \<Rightarrow> 'v \<Rightarrow> 'v js_map \<Rightarrow> 'v js_map" where
  "map_set k v [] = [(k, v)]"
| "map_set k v (p # ps) = (if fst p = k then (k, v) # ps else p # map_set k v ps)"

fun map_delete :: "js_key \<Rightarrow> 'v js_map \<Rightarrow> 'v js_map" where
  "map_delete (KStr k) m = filter (\<lambda>p. fst p \<noteq> k) m"
| "map_delete (KArr ks) m = m"

definition map_keys :: "'v js_map \<Rightarrow> string list" where
  "map_keys m = map fst m"

definition map_values :: "'v js_map \<Rightarrow> 'v list" where
  "map_values m = map snd m"

text \<open>\<open>Array.prototype.slice(-1)\<close>: the last element as a one-element array, or the empty array.\<close>

definition slice_last :: "'a list \<Rightarrow> 'a list" where
  "slice_last xs = drop (length xs - 1) xs"

text \<open>
  The \<open>cache\<close> option object handed to the constructor (the \<open>cache.users\<close> entry of the
  client options): each property may be missing. \<open>toAdd\<close> and \<open>toRemove\<close> are called
  with a key and a value.
\<close>

record 'v cache_options =
  sweep :: "nat option"
  toAdd :: "(string \<Rightarrow> 'v \<Rightarrow> bool) option"
  toRemove :: "(string \<Rightarrow> 'v \<Rightarrow> bool) option"

text \<open>
  A Collection: the fields \<open>limit\<close> and \<open>cache\<close> and the entries of the underlying Map.
  \<open>limit\<close> is a JavaScript number that may be \<open>Infinity\<close> (the users cache is configured
  so), hence an extended natural number.
\<close>

record 'v collection =
  limit :: enat
  cache :: "'v cache_options"
  entries :: "'v js_map"

definition size_c :: "'v collection \<Rightarrow> nat" where
  "size_c c = length (entries c)"

text \<open>
  \<open>constructor (cache = {}, limit = 100)\<close>: the underlying Map starts empty, so the sweep
  the constructor may start finds no entry to delete.
\<close>

definition Collection :: "'v cache_options \<Rightarrow> enat \<Rightarrow> 'v collection" where
  "Collection cache_opts n = \<lparr>limit = n, cache = cache_opts, entries = []\<rparr>"

text \<open>
  \<open>add (id, item)\<close>. The id is a string, \<open>undefined\<close> or \<open>null\<close> (\<open>None\<close>: both
  satisfy \<open>id == undefined\<close>). The result is the thrown error, or the returned value with
  the collection after the call.
\<close>

definition Collection_add ::
  "string option \<Rightarrow> 'v \<Rightarrow> 'v collection \<Rightarrow> js_error + ('v js \<times> 'v collection)" where
  "Collection_add ident item c =
     (if limit c = 0 then Inr (Val item, c)
      else case ident of
        None \<Rightarrow> Inl (Error ''Missing id'')
      | Some k \<Rightarrow>
          if map_has k (entries c) then Inr (map_get k (entries c), c)
          else
            let c1 = (if limit c \<noteq> 0 \<and> enat (size_c c) > limit c
                      then c\<lparr>entries := map_delete (KArr (slice_last (map_keys (entries c)))) (entries c)\<rparr>
                      else c)
            in Inr (Val item, c1\<lparr>entries := map_set k item (entries c1)\<rparr>))"

text \<open>
  What a \<open>for (const item of e)\<close> loop is handed: the property \<open>this.values\<close> read without
  calling it (the method itself, a function object) or the iterator \<open>this.values()\<close> over the
  stored values in insertion order. A function object is not iterable: the loop throws a
  TypeError before its body runs.
\<close>

datatype 'v for_of_source = MethodRef | ValuesIterator "'v list"

fun for_of :: "'v for_of_source \<Rightarrow> ('v \<Rightarrow> 'a \<Rightarrow> 'a) \<Rightarrow> 'a \<Rightarrow> js_error + 'a" where
  "for_of MethodRef body acc = Inl TypeError"
| "for_of (ValuesIterator xs) body acc = Inr (fold body xs acc)"

text \<open>\<open>filter (func)\<close> loops over \<open>this.values\<close>; \<open>map (func)\<close> over \<open>this.values()\<close>.\<close>

definition Collection_filter :: "('v \<Rightarrow> bool) \<Rightarrow> 'v collection \<Rightarrow> js_error + ('v list \<times> 'v collection)" where
  "Collection_filter func c =
     (case for_of MethodRef (\<lambda>item array. if func item then array @ [item] else array) [] of
        Inl e \<Rightarrow> Inl e
      | Inr array \<Rightarrow> Inr (array, c))"

definition Collection_map :: "('v \<Rightarrow> 'b) \<Rightarrow> 'v collection \<Rightarrow> js_error + ('b list \<times> 'v collection)" where
  "Collection_map func c =
     (case for_of (ValuesIterator (map_values (entries c))) (\<lambda>item array. array @ [func item]) [] of
        Inl e \<Rightarrow> Inl e
      | Inr array \<Rightarrow> Inr (array, c))"

text \<open>
  \<open>remove (item)\<close>, given the \<open>id\<close> of the item: the value of the comma expression
  \<open>(this.delete(item.id), this.get(item.id))\<close> is that of its last operand, evaluated after
  the deletion.
\<close>

definition Collection_remove :: "string \<Rightarrow> 'v collection \<Rightarrow> 'v js \<times> 'v collection" where
  "Collection_remove item_id c =
     (if \<not> map_has item_id (entries c) then (Null, c)
      else
        let c1 = c\<lparr>entries := map_delete (KStr item_id) (entries c)\<rparr>
        in (map_get item_id (entries c1), c1))"

text \<open>Running \<open>add\<close> calls one after another, as long as none throws.\<close>

fun add_all :: "(string \<times> 'v) list \<Rightarrow> 'v collection \<Rightarrow> js_error + 'v collection" where
  "add_all [] c = Inr c"
| "add_all ((k, v) # kvs) c =
     (case Collection_add (Some k) v c of Inl e \<Rightarrow> Inl e | Inr (r, c1) \<Rightarrow> add_all kvs c1)"

section \<open>Gateway frames\<close>

text \<open>
  Modelled from the spec: the table \<open>Constants.OP_CODES\<close> (\<open>utils/Constants\<close> is not among
  the sources). The spec lists the opcodes the gateway code consumes and produces; they are
  taken to be pairwise distinct, and \<open>OTHER n\<close> stands for any other value of \<open>packet.op\<close>.
\<close>

datatype opcode =
  EVENT | HEARTBEAT | IDENTIFY | RESUME | HEARTBEAT_ACK | HELLO | INVALID_SESSION | OTHER nat

text \<open>
  The payload \<open>d\<close> of an inbound frame: \<open>null\<close>, a boolean (INVALID_SESSION), or an object,
  of which the code reads the properties \<open>session_id\<close> and \<open>heartbeat_interval\<close>.
\<close>

datatype payload = DNull | DBool bool | DObj "string option" "nat option"

text \<open>\<open>if (packet.d)\<close>\<close>

fun d_truthy :: "payload \<Rightarrow> bool" where
  "d_truthy DNull = False"
| "d_truthy (DBool b) = b"
| "d_truthy (DObj sid hb) = True"

text \<open>\<open>packet.d.session_id\<close>: reading a property of \<open>null\<close> throws.\<close>

fun d_session_id :: "payload \<Rightarrow> js_error + string option" where
  "d_session_id DNull = Inl TypeError"
| "d_session_id (DBool b) = Inr None"
| "d_session_id (DObj sid hb) = Inr sid"

text \<open>\<open>packet.d?.heartbeat_interval\<close>\<close>

fun d_heartbeat_interval :: "payload \<Rightarrow> nat option" where
  "d_heartbeat_interval DNull = None"
| "d_heartbeat_interval (DBool b) = None"
| "d_heartbeat_interval (DObj sid hb) = hb"

text \<open>An inbound frame \<open>{ op, d, s, t }\<close>; \<open>s\<close> and \<open>t\<close> may be \<open>null\<close>.\<close>

record packet =
  packet_op :: opcode
  packet_d :: payload
  packet_s :: "int option"
  packet_t :: "string option"

text \<open>
  The payload of an outbound frame: the sequence (HEARTBEAT), \<open>{ token, session_id, seq }\<close>
  (RESUME), \<open>{ token, intents, shard: [id, shardCount], v, properties: { os, browser, device } }\<close>
  (IDENTIFY).
\<close>

datatype frame_data =
  HeartbeatData int
| ResumeData string "string option" int
| IdentifyData string nat "nat \<times> nat" nat "string \<times> string \<times> string"

datatype frame = Frame opcode frame_data

section \<open>Shard (class Shard extends EventEmitter)\<close>

datatype status = IDLE | CONNECTED | OPEN | READY | CLOSED

datatype websocket = Websocket string

text \<open>
  What a Shard does to the world, in program order: events emitted on the shard and on the
  client, sockets opened and terminated, frames sent, timers armed and cleared.
  \<open>SetTimeoutConnect ms\<close> is \<open>setTimeout(() => this.connect(), ms)\<close>;
  \<open>SetInterval ms\<close> is \<open>setInterval(() => this.sendHeartbeat(), ms)\<close>.
\<close>

datatype shard_event = ConnectionClosed nat string nat | Connect nat | Disconnect string

datatype client_event = ShardError js_error nat

datatype effect =
  Emit shard_event
| ClientEmit client_event
| NewWebsocket string
| Send frame
| Terminate
| SetTimeoutConnect nat
| SetInterval nat
| ClearInterval nat

text \<open>
  The fields of a Shard. \<open>lastHeartbeatAck\<close> and \<open>lastHeartbeatReceived\<close> are properties the
  constructor does not create (\<open>None\<close>: undefined); \<open>heartbeatInterval\<close> holds the period of
  the armed interval timer; \<open>trace\<close> collects the effects.
\<close>

record shard =
  shard_id :: nat
  sequence :: int
  sessionId :: "string option"
  lastHeartbeatAcked :: bool
  lastHeartbeatAck :: "bool option"
  lastHeartbeatReceived :: "nat option"
  heartbeatInterval :: "nat option"
  reconnectInterval :: nat
  reconnectAttempts :: nat
  status :: status
  connection :: "websocket option"
  trace :: "effect list"

text \<open>
  The manager a Shard refers back to, with its client: the fields the gateway code reads.
  \<open>process_platform\<close> is the runtime's \<open>process.platform\<close>.
\<close>

record client_options =
  intents :: nat
  shardCount :: nat
  ws_version :: nat
  autoReconnect :: bool
  blockedEvents :: "string list"

record client =
  token :: string
  options :: client_options

record manager =
  websocketURL :: string
  client :: client
  process_platform :: string

text \<open>\<open>constructor (manager, id)\<close>\<close>

definition Shard :: "nat \<Rightarrow> shard" where
  "Shard i =
     \<lparr>shard_id = i, sequence = - 1, sessionId = None, lastHeartbeatAcked = True,
      lastHeartbeatAck = None, lastHeartbeatReceived = None, heartbeatInterval = None,
      reconnectInterval = 3000, reconnectAttempts = 0, status = IDLE, connection = None,
      trace = []\<rparr>"

text \<open>\<open>connect ()\<close>\<close>

definition Shard_connect :: "manager \<Rightarrow> shard \<Rightarrow> shard" where
  "Shard_connect m sh =
     (if status sh \<noteq> IDLE then sh
      else sh\<lparr>connection := Some (Websocket (websocketURL m)), status := CONNECTED,
              trace := trace sh @ [NewWebsocket (websocketURL m)]\<rparr>)"

text \<open>\<open>if (this.sessionId)\<close>: \<open>null\<close> and the empty string are falsy.\<close>

definition string_truthy :: "string option \<Rightarrow> bool" where
  "string_truthy x = (case x of None \<Rightarrow> False | Some str \<Rightarrow> str \<noteq> [])"

text \<open>
  \<open>disconnect (reconnect = false)\<close>. \<open>term\<close> is the outcome of \<open>this.connection.terminate()\<close>:
  \<open>None\<close> when it returns, \<open>Some e\<close> when it throws \<open>e\<close>.
\<close>

definition Shard_disconnect :: "manager \<Rightarrow> bool \<Rightarrow> js_error option \<Rightarrow> shard \<Rightarrow> shard" where
  "Shard_disconnect m reconnect term sh =
     (case connection sh of
        None \<Rightarrow> sh
      | Some c \<Rightarrow>
          (let s1 = (case heartbeatInterval sh of
                       None \<Rightarrow> sh
                     | Some h \<Rightarrow> sh\<lparr>heartbeatInterval := None, trace := trace sh @ [ClearInterval h]\<rparr>)
           in (case term of
                 Some e \<Rightarrow> s1\<lparr>trace := trace s1 @ [ClientEmit (ShardError e (shard_id s1))]\<rparr>
               | None \<Rightarrow>
                   (let s2 = s1\<lparr>connection := None,
                               trace := trace s1 @ [Terminate, Emit (Disconnect ''ASKED'')]\<rparr>;
                        s3 = (if string_truthy (sessionId s2) then s2\<lparr>sessionId := None\<rparr> else s2);
                        s4 = (if sequence s3 \<noteq> 0 then s3\<lparr>sequence := - 1\<rparr> else s3)
                    in (if reconnect \<and> autoReconnect (options (client m)) then
                          (if 5 \<le> reconnectAttempts s4
                           then s4\<lparr>trace := trace s4 @ [Emit (Disconnect ''ATTEMPTS_ULTRAPASSED'')]\<rparr>
                           else s4\<lparr>trace := trace s4 @ [SetTimeoutConnect (reconnectInterval s4)],
                                   reconnectInterval := reconnectInterval s4 + 3000,
                                   reconnectAttempts := reconnectAttempts s4 + 1\<rparr>)
                        else s4)))))"

text \<open>\<open>websocketCloseConnection (code, reason)\<close>\<close>

definition Shard_websocketCloseConnection ::
  "manager \<Rightarrow> js_error option \<Rightarrow> nat \<Rightarrow> string \<Rightarrow> shard \<Rightarrow> shard" where
  "Shard_websocketCloseConnection m term code reason sh =
     Shard_disconnect m True term
       (sh\<lparr>status := CLOSED,
           trace := trace sh @ [Emit (ConnectionClosed code reason (shard_id sh))]\<rparr>)"

text \<open>\<open>websocketError (error)\<close>\<close>

definition Shard_websocketError :: "js_error \<Rightarrow> shard \<Rightarrow> shard" where
  "Shard_websocketError err sh = sh\<lparr>trace := trace sh @ [ClientEmit (ShardError err (shard_id sh))]\<rparr>"

text \<open>\<open>websocketConnectionOpen ()\<close>\<close>

definition Shard_websocketConnectionOpen :: "shard \<Rightarrow> shard" where
  "Shard_websocketConnectionOpen sh =
     sh\<lparr>status := OPEN, trace := trace sh @ [Emit (Connect (shard_id sh))],
        lastHeartbeatAck := Some True\<rparr>"

text \<open>
  \<open>sendWebsocketMessage (data)\<close>: \<open>this.connection.send\<close> throws a TypeError when
  \<open>this.connection\<close> is \<open>null\<close>. The callback handed to \<open>send\<close> runs when the socket has
  written the frame, after the call has returned; it is no part of the call.
\<close>

definition Shard_sendWebsocketMessage :: "frame \<Rightarrow> shard \<Rightarrow> js_error + shard" where
  "Shard_sendWebsocketMessage data sh =
     (if status sh \<noteq> CLOSED then
        (case connection sh of
           None \<Rightarrow> Inl TypeError
         | Some c \<Rightarrow> Inr (sh\<lparr>trace := trace sh @ [Send data]\<rparr>))
      else Inr sh)"

text \<open>\<open>identify ()\<close>\<close>

definition Shard_identify :: "manager \<Rightarrow> shard \<Rightarrow> js_error + shard" where
  "Shard_identify m sh =
     Shard_sendWebsocketMessage
       (Frame IDENTIFY
          (IdentifyData (token (client m)) (intents (options (client m)))
             (shard_id sh, shardCount (options (client m))) (ws_version (options (client m)))
             (process_platform m, ''hitomi'', ''hitomi'')))
       sh"

text \<open>\<open>sendHeartbeat ()\<close>\<close>

definition Shard_sendHeartbeat :: "shard \<Rightarrow> js_error + shard" where
  "Shard_sendHeartbeat sh =
     Shard_sendWebsocketMessage (Frame HEARTBEAT (HeartbeatData (sequence sh)))
       (sh\<lparr>lastHeartbeatAcked := False\<rparr>)"

section \<open>GatewayManager\<close>

text \<open>
  The handler registry \<open>PacketHandlers\<close> (the module \<open>./handlers/\<close>, not among the sources) is a
  parameter: a lookup from property name to handler. A handler is called with the client, the
  packet and the shard; what it does is a change of some state \<open>'w\<close> outside the gateway code,
  or a thrown error.
\<close>

type_synonym 'w handler = "client \<Rightarrow> packet \<Rightarrow> shard \<Rightarrow> 'w \<Rightarrow> js_error + 'w"

type_synonym 'w handlers = "string \<Rightarrow> 'w handler option"

text \<open>\<open>blockedEvents.includes(packet.t)\<close>: an array of strings does not include \<open>null\<close>.\<close>

definition includes_t :: "string list \<Rightarrow> string option \<Rightarrow> bool" where
  "includes_t xs t = (case t of None \<Rightarrow> False | Some e \<Rightarrow> e \<in> set xs)"

text \<open>\<open>PacketHandlers[packet.t]\<close>: the property key of \<open>null\<close> is the string \<open>null\<close>.\<close>

definition property_key :: "string option \<Rightarrow> string" where
  "property_key t = (case t of None \<Rightarrow> ''null'' | Some e \<Rightarrow> e)"

text \<open>\<open>handlePacket (packet, shard)\<close>; \<open>None\<close> is an absent packet (\<open>null\<close>, \<open>undefined\<close>).\<close>

definition GatewayManager_handlePacket ::
  "manager \<Rightarrow> 'w handlers \<Rightarrow> packet option \<Rightarrow> shard \<Rightarrow> 'w \<Rightarrow> js_error + (bool \<times> 'w)" where
  "GatewayManager_handlePacket m PacketHandlers pkt sh w =
     (case pkt of
        None \<Rightarrow> Inr (False, w)
      | Some p \<Rightarrow>
          if \<not> includes_t (blockedEvents (options (client m))) (packet_t p) then
            (case PacketHandlers (property_key (packet_t p)) of
               None \<Rightarrow> Inr (True, w)
             | Some event \<Rightarrow>
                 (case event (client m) p sh w of
                    Inl e \<Rightarrow> Inl e
                  | Inr w1 \<Rightarrow> Inr (True, w1)))
          else Inr (True, w))"

section \<open>Shard: inbound frames\<close>

definition with_world :: "'w \<Rightarrow> js_error + shard \<Rightarrow> js_error + (shard \<times> 'w)" where
  "with_world w r = (case r of Inl e \<Rightarrow> Inl e | Inr sh \<Rightarrow> Inr (sh, w))"

text \<open>\<open>packetReceive (packet)\<close>; \<open>now\<close> is the value of \<open>Date.now()\<close>.\<close>

definition Shard_packetReceive ::
  "manager \<Rightarrow> 'w handlers \<Rightarrow> nat \<Rightarrow> packet \<Rightarrow> shard \<Rightarrow> 'w \<Rightarrow> js_error + (shard \<times> 'w)" where
  "Shard_packetReceive m PacketHandlers now p sh w =
     (let s1 = (case packet_s p of
                  None \<Rightarrow> sh
                | Some n \<Rightarrow> if n \<noteq> 0 then sh\<lparr>sequence := n\<rparr> else sh);
          r1 = (if packet_t p = Some ''READY'' then
                  (case d_session_id (packet_d p) of
                     Inl e \<Rightarrow> Inl e
                   | Inr sid \<Rightarrow>
                       Shard_sendHeartbeat
                         (s1\<lparr>sessionId := sid, status := READY, lastHeartbeatAcked := True\<rparr>))
                else Inr s1)
      in case r1 of
           Inl e \<Rightarrow> Inl e
         | Inr s2 \<Rightarrow>
             (case packet_op p of
                EVENT \<Rightarrow>
                  (case GatewayManager_handlePacket m PacketHandlers (Some p) s2 w of
                     Inl e \<Rightarrow> Inl e
                   | Inr (b, w1) \<Rightarrow> Inr (s2, w1))
              | HEARTBEAT \<Rightarrow> with_world w (Shard_sendHeartbeat s2)
              | HEARTBEAT_ACK \<Rightarrow>
                  Inr (s2\<lparr>lastHeartbeatAck := Some True, lastHeartbeatReceived := Some now\<rparr>, w)
              | HELLO \<Rightarrow>
                  (let s3 = (case d_heartbeat_interval (packet_d p) of
                               None \<Rightarrow> s2
                             | Some hb \<Rightarrow>
                                 if hb = 0 then s2
                                 else
                                   let s2c = (case heartbeatInterval s2 of
                                                None \<Rightarrow> s2
                                              | Some h \<Rightarrow> s2\<lparr>trace := trace s2 @ [ClearInterval h]\<rparr>)
                                   in s2c\<lparr>heartbeatInterval := Some hb,
                                          trace := trace s2c @ [SetInterval hb]\<rparr>)
                   in if string_truthy (sessionId s3) then
                        with_world w
                          (Shard_sendWebsocketMessage
                             (Frame RESUME
                                (ResumeData (token (client m)) (sessionId s3) (sequence s3)))
                             s3)
                      else
                        (case Shard_identify m s3 of
                           Inl e \<Rightarrow> Inl e
                         | Inr s4 \<Rightarrow> with_world w (Shard_sendHeartbeat s4)))
              | INVALID_SESSION \<Rightarrow>
                  (let s3 = s2\<lparr>sessionId := None, sequence := 0\<rparr>
                   in if d_truthy (packet_d p) then with_world w (Shard_identify m s3)
                      else Inr (s3, w))
              | _ \<Rightarrow> Inr (s2, w)))"

text \<open>The delays of the reconnects a trace schedules, in order.\<close>

fun reconnect_delays :: "effect list \<Rightarrow> nat list" where
  "reconnect_delays [] = []"
| "reconnect_delays (SetTimeoutConnect ms # es) = ms # reconnect_delays es"
| "reconnect_delays (e # es) = reconnect_delays es"

section \<open>Shard: the states a run reaches\<close>

text \<open>
  The shards a run of the code reaches: a shard is built by the constructor and changed by
  calls of its methods, by the socket's events (\<open>open\<close>, \<open>error\<close>, \<open>close\<close>, a decoded
  \<open>message\<close>) and by the two timers (\<open>connect ()\<close>, \<open>sendHeartbeat ()\<close>). A call that
  throws is not a step.
\<close>

inductive reachable :: "manager \<Rightarrow> 'w handlers \<Rightarrow> shard \<Rightarrow> bool"
  for m :: manager and PacketHandlers :: "'w handlers" where
  constructed: "reachable m PacketHandlers (Shard i)"
| connect: "reachable m PacketHandlers sh \<Longrightarrow> reachable m PacketHandlers (Shard_connect m sh)"
| socket_close:
    "reachable m PacketHandlers sh \<Longrightarrow>
     reachable m PacketHandlers (Shard_websocketCloseConnection m term code reason sh)"
| socket_error:
    "reachable m PacketHandlers sh \<Longrightarrow> reachable m PacketHandlers (Shard_websocketError err sh)"
| socket_open:
    "reachable m PacketHandlers sh \<Longrightarrow> reachable m PacketHandlers (Shard_websocketConnectionOpen sh)"
| packet:
    "reachable m PacketHandlers sh \<Longrightarrow>
     Shard_packetReceive m PacketHandlers now p sh w = Inr (sh1, w1) \<Longrightarrow>
     reachable m PacketHandlers sh1"
| identify:
    "reachable m PacketHandlers sh \<Longrightarrow> Shard_identify m sh = Inr sh1 \<Longrightarrow>
     reachable m PacketHandlers sh1"
| heartbeat:
    "reachable m PacketHandlers sh \<Longrightarrow> Shard_sendHeartbeat sh = Inr sh1 \<Longrightarrow>
     reachable m PacketHandlers sh1"
| send:
    "reachable m PacketHandlers sh \<Longrightarrow> Shard_sendWebsocketMessage data sh = Inr sh1 \<Longrightarrow>
     reachable m PacketHandlers sh1"
| disconnect:
    "reachable m PacketHandlers sh \<Longrightarrow>
     reachable m PacketHandlers (Shard_disconnect m reconnect term sh)"

text \<open>
  The backoff fields as the constructor sets them with no reconnect scheduled, and as one
  scheduled reconnect leaves them.
\<close>

definition backoff_untouched :: "shard \<Rightarrow> bool" where
  "backoff_untouched sh =
     (reconnectAttempts sh = 0 \<and> reconnectInterval sh = 3000 \<and> reconnect_delays (trace sh) = [])"

definition backoff_once :: "shard \<Rightarrow> bool" where
  "backoff_once sh =
     (reconnectAttempts sh = 1 \<and> reconnectInterval sh = 6000 \<and> reconnect_delays (trace sh) = [3000])"

text \<open>
  What holds of the backoff fields in every shard a run reaches: a shard that holds a socket
  is not IDLE and has never scheduled a reconnect, an IDLE shard neither, and any other shard
  has scheduled at most one.
\<close>

definition backoff_inv :: "shard \<Rightarrow> bool" where
  "backoff_inv sh =
     (if connection sh \<noteq> None then status sh \<noteq> IDLE \<and> backoff_untouched sh
      else if status sh = IDLE then backoff_untouched sh
      else backoff_untouched sh \<or> backoff_once sh)"

text \<open>The fields that decide what \<open>connect\<close> and \<open>disconnect\<close> do about reconnecting.\<close>

definition backoff_view :: "shard \<Rightarrow> websocket option \<times> nat \<times> nat \<times> nat list" where
  "backoff_view sh =
     (connection sh, reconnectAttempts sh, reconnectInterval sh, reconnect_delays (trace sh))"

text \<open>A step that leaves these fields alone and does not make the shard IDLE.\<close>

definition same_backoff :: "shard \<Rightarrow> shard \<Rightarrow> bool" where
  "same_backoff sh sh1 =
     (backoff_view sh1 = backoff_view sh \<and> (status sh1 = IDLE \<longrightarrow> status sh = IDLE))"

section \<open>Example inputs\<close>

text \<open>
  A cache option object with no property, and one shaped like the \<open>cache.users\<close> entry of the
  client set-up, whose admission predicate rejects every key.
\<close>

definition no_cache :: "'v cache_options" where
  "no_cache = \<lparr>sweep = None, toAdd = None, toRemove = None\<rparr>"

definition vetoing_cache :: "'v cache_options" where
  "vetoing_cache =
     \<lparr>sweep = Some 10, toAdd = Some (\<lambda>k v. False), toRemove = Some (\<lambda>k v. False)\<rparr>"

text \<open>A manager whose client has auto-reconnect on and blocks one event type.\<close>

definition example_manager :: manager where
  "example_manager =
     \<lparr>websocketURL = ''wss://gateway.discord.gg/?v=9&encoding=json'',
      client = \<lparr>token = ''token'',
                options = \<lparr>intents = 13827, shardCount = 1, ws_version = 9,
                            autoReconnect = True, blockedEvents = [''TYPING_START'']\<rparr>\<rparr>,
      process_platform = ''linux''\<rparr>"

text \<open>Shard 0 after \<open>connect ()\<close> and the socket's \<open>open\<close> event.\<close>

definition open_shard :: shard where
  "open_shard = Shard_websocketConnectionOpen (Shard_connect example_manager (Shard 0))"

text \<open>
  A registry with handlers for two event types, each counting its calls, and a dispatch
  frame of a given event type.
\<close>

definition counting_handlers :: "nat handlers" where
  "counting_handlers k =
     (if k = ''MESSAGE_CREATE'' \<or> k = ''TYPING_START''
      then Some (\<lambda>c p sh n. Inr (Suc n)) else None)"

definition event_packet :: "string \<Rightarrow> packet" where
  "event_packet e =
     \<lparr>packet_op = EVENT, packet_d = DObj None None, packet_s = Some 1, packet_t = Some e\<rparr>"

text \<open>A shard in a resumable session at sequence 42, and an INVALID_SESSION frame.\<close>

definition resumable_shard :: shard where
  "resumable_shard = open_shard\<lparr>sequence := 42, sessionId := Some ''session''\<rparr>"

definition invalid_session_packet :: packet where
  "invalid_session_packet =
     \<lparr>packet_op = INVALID_SESSION, packet_d = DBool True, packet_s = None, packet_t = None\<rparr>"

section \<open>Collection: what the code does\<close>

lemmas collection_defs =
  Collection_add_def Collection_def no_cache_def vetoing_cache_def map_has_def map_get_def
  size_c_def map_keys_def slice_last_def

lemma map_delete_fresh_array: "map_delete (KArr ks) m = m"
  by simp

lemma map_set_new_key: "\<not> map_has k m \<Longrightarrow> map_set k v m = m @ [(k, v)]"
  by (induction m) (auto simp: map_has_def)

text \<open>
  Whatever the limit (other than 0) and the cache options, \<open>add\<close> of a key that is not
  stored appends the entry and removes nothing.
\<close>

lemma add_new_key_appends:
  assumes "limit c \<noteq> 0" and "\<not> map_has k (entries c)"
  shows "Collection_add (Some k) v c = Inr (Val v, c\<lparr>entries := entries c @ [(k, v)]\<rparr>)"
  using assms by (simp add: Collection_add_def Let_def map_set_new_key)

text \<open>
  Claim C2 (capacity invariant: \<open>size() <= limit\<close> after every \<open>add\<close>, for a finite limit).
  The code at \<open>limit = 2\<close>: four adds of new keys leave four entries. The third add sees
  \<open>size = 2\<close>, which is not above the limit; the fourth sees \<open>size = 3 > 2\<close> and calls
  \<open>delete\<close> with a fresh array, which removes nothing.
\<close>

theorem add_exceeds_limit:
  "add_all [(''a'', 1), (''b'', 2), (''c'', 3), (''d'', 4)] (Collection no_cache 2) =
     Inr \<lparr>limit = 2, cache = no_cache,
          entries = [(''a'', 1::nat), (''b'', 2), (''c'', 3), (''d'', 4)]\<rparr>
   \<and> \<not> enat (size_c \<lparr>limit = 2, cache = no_cache,
                     entries = [(''a'', 1::nat), (''b'', 2), (''c'', 3), (''d'', 4)]\<rparr>) \<le> 2"
proof
  show "add_all [(''a'', 1), (''b'', 2), (''c'', 3), (''d'', 4)] (Collection no_cache 2) =
     Inr \<lparr>limit = 2, cache = no_cache,
          entries = [(''a'', 1::nat), (''b'', 2), (''c'', 3), (''d'', 4)]\<rparr>"
    by (simp add: collection_defs)
  show "\<not> enat (size_c \<lparr>limit = 2, cache = no_cache,
                     entries = [(''a'', 1::nat), (''b'', 2), (''c'', 3), (''d'', 4)]\<rparr>) \<le> 2"
    by (simp add: size_c_def numeral_eq_enat)
qed

text \<open>
  Claim C4 (eviction order: with \<open>limit = 2\<close>, \<open>add("a",1); add("b",2); add("c",3)\<close> evicts
  \<open>"a"\<close> and leaves \<open>{b:2, c:3}\<close>). The code keeps all three entries, \<open>"a"\<close> first.
\<close>

theorem add_overflow_keeps_oldest:
  "add_all [(''a'', 1), (''b'', 2), (''c'', 3)] (Collection no_cache 2) =
     Inr ((Collection no_cache 2)\<lparr>entries := [(''a'', 1::nat), (''b'', 2), (''c'', 3)]\<rparr>)"
  by (simp add: collection_defs)

text \<open>
  Claim C5 (admission veto: when the configured predicate returns false, \<open>add\<close> returns the
  value and stores nothing). The code never reads \<open>cache.toAdd\<close>: with a predicate that
  rejects every key, \<open>add("x", 7)\<close> returns 7 and stores it.
\<close>

theorem add_ignores_toAdd:
  "Collection_add (Some ''x'') (7::nat) (Collection vetoing_cache \<infinity>) =
     Inr (Val 7, (Collection vetoing_cache \<infinity>)\<lparr>entries := [(''x'', 7)]\<rparr>)"
  by (simp add: collection_defs)

text \<open>
  Claim C6 (\<open>remove\<close>: \<open>null\<close> and no change for an absent key; for a present key the entry is
  deleted and the removed value returned). The code deletes the entry of a present key and then
  looks the key up again: it returns \<open>undefined\<close>.
\<close>

theorem remove_present_returns_undefined:
  "Collection_remove ''a'' ((Collection no_cache 100)\<lparr>entries := [(''a'', 1::nat), (''b'', 2)]\<rparr>) =
     (Undefined, (Collection no_cache 100)\<lparr>entries := [(''b'', 2)]\<rparr>)"
  by (simp add: Collection_remove_def collection_defs)

text \<open>
  Claim C7 (\<open>filter\<close> is total and read-only: it returns the stored values that satisfy the
  predicate and raises no error). The code throws a TypeError for every collection and every
  predicate, since it iterates \<open>this.values\<close> instead of \<open>this.values()\<close>.
\<close>

theorem filter_throws: "Collection_filter func c = Inl TypeError"
  by (simp add: Collection_filter_def)

section \<open>Shard: what the code does\<close>

lemmas shard_defs =
  Shard_def Shard_connect_def Shard_disconnect_def Shard_websocketCloseConnection_def
  Shard_websocketConnectionOpen_def Shard_sendWebsocketMessage_def Shard_sendHeartbeat_def
  Shard_identify_def string_truthy_def example_manager_def open_shard_def

lemma connect_when_not_idle: "status sh \<noteq> IDLE \<Longrightarrow> Shard_connect m sh = sh"
  by (simp add: Shard_connect_def)

lemma disconnect_keeps_status: "status (Shard_disconnect m reconnect term sh) = status sh"
  by (simp add: Shard_disconnect_def Let_def split: option.splits)

text \<open>After the close handler has run, \<open>connect ()\<close> changes nothing, for every shard.\<close>

lemma connect_after_close_is_noop:
  "Shard_connect m (Shard_websocketCloseConnection m term code reason sh) =
     Shard_websocketCloseConnection m term code reason sh"
  by (simp add: connect_when_not_idle Shard_websocketCloseConnection_def disconnect_keeps_status)

text \<open>
  A HEARTBEAT_ACK frame (its event type not READY) changes the sequence, if it carries one,
  and the properties \<open>lastHeartbeatAck\<close> and \<open>lastHeartbeatReceived\<close>, nothing else.
\<close>

lemma heartbeat_ack_keeps_flag:
  assumes "packet_op p = HEARTBEAT_ACK" and "packet_t p \<noteq> Some ''READY''"
  shows "Shard_packetReceive m PacketHandlers now p sh w =
     Inr ((case packet_s p of
             None \<Rightarrow> sh
           | Some n \<Rightarrow> if n \<noteq> 0 then sh\<lparr>sequence := n\<rparr> else sh)
            \<lparr>lastHeartbeatAck := Some True, lastHeartbeatReceived := Some now\<rparr>, w)"
  using assms by (simp add: Shard_packetReceive_def Let_def)

text \<open>
  Claim C1 (a CLOSED Connection whose \<open>disconnect(reconnect=true)\<close> passes the backoff policy
  is taken to CONNECTING by the scheduled \<open>connect()\<close>, which opens a new socket). The code, on
  an open shard whose socket closes with auto-reconnect on and no attempt made so far: the
  close handler sets the status to CLOSED and schedules \<open>connect()\<close> after 3000 ms; when the
  timer fires, \<open>connect()\<close> returns at once because the status is not IDLE. The shard stays
  CLOSED with no socket; the only socket ever opened is the first one.
\<close>

theorem reconnect_timer_connect_is_noop:
  "Shard_connect example_manager
     (Shard_websocketCloseConnection example_manager None 1006 [] open_shard) =
     \<lparr>shard_id = 0, sequence = - 1, sessionId = None, lastHeartbeatAcked = True,
      lastHeartbeatAck = Some True, lastHeartbeatReceived = None, heartbeatInterval = None,
      reconnectInterval = 6000, reconnectAttempts = 1, status = CLOSED, connection = None,
      trace = [NewWebsocket (websocketURL example_manager), Emit (Connect 0),
               Emit (ConnectionClosed 1006 [] 0), Terminate, Emit (Disconnect ''ASKED''),
               SetTimeoutConnect 3000]\<rparr>"
  by (simp add: shard_defs)

text \<open>
  Claim C3 (a heartbeat tick sets \<open>lastHeartbeatAcked\<close> to false and sends a heartbeat frame
  with the last-seen sequence; a HEARTBEAT_ACK frame sets \<open>lastHeartbeatAcked\<close> back to true
  and records the receipt time). The code, on an open shard: the heartbeat clears the flag and
  sends the frame; the HEARTBEAT_ACK frame records the time and sets another property,
  \<open>lastHeartbeatAck\<close>, so \<open>lastHeartbeatAcked\<close> is still false afterwards.
\<close>

theorem heartbeat_ack_leaves_flag_false:
  "Shard_sendHeartbeat open_shard =
     Inr (open_shard\<lparr>lastHeartbeatAcked := False,
                     trace := trace open_shard @ [Send (Frame HEARTBEAT (HeartbeatData (- 1)))]\<rparr>)
   \<and> Shard_packetReceive example_manager PacketHandlers 1234
        \<lparr>packet_op = HEARTBEAT_ACK, packet_d = DNull, packet_s = None, packet_t = None\<rparr>
        (open_shard\<lparr>lastHeartbeatAcked := False,
                   trace := trace open_shard @ [Send (Frame HEARTBEAT (HeartbeatData (- 1)))]\<rparr>) w =
     Inr (open_shard\<lparr>lastHeartbeatAcked := False, lastHeartbeatAck := Some True,
                     lastHeartbeatReceived := Some 1234,
                     trace := trace open_shard @ [Send (Frame HEARTBEAT (HeartbeatData (- 1)))]\<rparr>, w)
   \<and> lastHeartbeatAcked
        (open_shard\<lparr>lastHeartbeatAcked := False, lastHeartbeatAck := Some True,
                   lastHeartbeatReceived := Some 1234,
                   trace := trace open_shard @ [Send (Frame HEARTBEAT (HeartbeatData (- 1)))]\<rparr>) = False"
  by (simp add: shard_defs Shard_packetReceive_def)

lemma reconnect_delays_append:
  "reconnect_delays (xs @ ys) = reconnect_delays xs @ reconnect_delays ys"
  by (induction xs rule: reconnect_delays.induct) simp_all

lemmas example_defs = resumable_shard_def invalid_session_packet_def

section \<open>Shard: the backoff over every run\<close>

lemma send_view:
  "Shard_sendWebsocketMessage data sh = Inr sh1 \<Longrightarrow>
     backoff_view sh1 = backoff_view sh \<and> status sh1 = status sh"
  by (auto simp: Shard_sendWebsocketMessage_def backoff_view_def reconnect_delays_append
      split: if_splits option.splits)

lemma identify_view:
  "Shard_identify m sh = Inr sh1 \<Longrightarrow> backoff_view sh1 = backoff_view sh \<and> status sh1 = status sh"
  unfolding Shard_identify_def by (rule send_view)

lemma heartbeat_view:
  "Shard_sendHeartbeat sh = Inr sh1 \<Longrightarrow> backoff_view sh1 = backoff_view sh \<and> status sh1 = status sh"
  unfolding Shard_sendHeartbeat_def by (drule send_view) (simp add: backoff_view_def)


lemma same_backoff_refl: "same_backoff sh sh"
  by (simp add: same_backoff_def)

lemma same_backoff_trans: "same_backoff a b \<Longrightarrow> same_backoff b c \<Longrightarrow> same_backoff a c"
  by (simp add: same_backoff_def)

lemma send_same: "Shard_sendWebsocketMessage data sh = Inr sh1 \<Longrightarrow> same_backoff sh sh1"
  by (drule send_view) (simp add: same_backoff_def)

lemma identify_same: "Shard_identify m sh = Inr sh1 \<Longrightarrow> same_backoff sh sh1"
  by (drule identify_view) (simp add: same_backoff_def)

lemma heartbeat_same: "Shard_sendHeartbeat sh = Inr sh1 \<Longrightarrow> same_backoff sh sh1"
  by (drule heartbeat_view) (simp add: same_backoff_def)

lemma sequence_step_same:
  "same_backoff sh (case x of None \<Rightarrow> sh | Some n \<Rightarrow> if n \<noteq> 0 then sh\<lparr>sequence := n\<rparr> else sh)"
  by (simp add: same_backoff_def backoff_view_def split: option.splits)

lemma ready_step_same:
  assumes "(if t = Some ''READY'' then
              (case d_session_id d of
                 Inl e \<Rightarrow> Inl e
               | Inr sid \<Rightarrow>
                   Shard_sendHeartbeat
                     (s1\<lparr>sessionId := sid, status := READY, lastHeartbeatAcked := True\<rparr>))
            else Inr s1) = Inr s2"
  shows "same_backoff s1 s2"
proof (cases "t = Some ''READY''")
  case True
  with assms obtain sid where
    "Shard_sendHeartbeat (s1\<lparr>sessionId := sid, status := READY, lastHeartbeatAcked := True\<rparr>) = Inr s2"
    by (auto split: sum.splits)
  from heartbeat_view [OF this] show ?thesis
    by (simp add: same_backoff_def backoff_view_def)
next
  case False
  with assms show ?thesis by (simp add: same_backoff_refl)
qed

lemma hello_timer_same:
  "same_backoff s2
     (case d_heartbeat_interval d of
        None \<Rightarrow> s2
      | Some hb \<Rightarrow>
          if hb = 0 then s2
          else
            let s2c = (case heartbeatInterval s2 of
                         None \<Rightarrow> s2
                       | Some h \<Rightarrow> s2\<lparr>trace := trace s2 @ [ClearInterval h]\<rparr>)
            in s2c\<lparr>heartbeatInterval := Some hb, trace := trace s2c @ [SetInterval hb]\<rparr>)"
  by (simp add: same_backoff_def backoff_view_def Let_def reconnect_delays_append
      split: option.splits)

lemma op_step_same:
  assumes "(case packet_op p of
                EVENT \<Rightarrow>
                  (case GatewayManager_handlePacket m PacketHandlers (Some p) s2 w of
                     Inl e \<Rightarrow> Inl e
                   | Inr (b, w1) \<Rightarrow> Inr (s2, w1))
              | HEARTBEAT \<Rightarrow> with_world w (Shard_sendHeartbeat s2)
              | HEARTBEAT_ACK \<Rightarrow>
                  Inr (s2\<lparr>lastHeartbeatAck := Some True, lastHeartbeatReceived := Some now\<rparr>, w)
              | HELLO \<Rightarrow>
                  (let s3 = (case d_heartbeat_interval (packet_d p) of
                               None \<Rightarrow> s2
                             | Some hb \<Rightarrow>
                                 if hb = 0 then s2
                                 else
                                   let s2c = (case heartbeatInterval s2 of
                                                None \<Rightarrow> s2
                                              | Some h \<Rightarrow> s2\<lparr>trace := trace s2 @ [ClearInterval h]\<rparr>)
                                   in s2c\<lparr>heartbeatInterval := Some hb,
                                          trace := trace s2c @ [SetInterval hb]\<rparr>)
                   in if string_truthy (sessionId s3) then
                        with_world w
                          (Shard_sendWebsocketMessage
                             (Frame RESUME
                                (ResumeData (token (client m)) (sessionId s3) (sequence s3)))
                             s3)
                      else
                        (case Shard_identify m s3 of
                           Inl e \<Rightarrow> Inl e
                         | Inr s4 \<Rightarrow> with_world w (Shard_sendHeartbeat s4)))
              | INVALID_SESSION \<Rightarrow>
                  (let s3 = s2\<lparr>sessionId := None, sequence := 0\<rparr>
                   in if d_truthy (packet_d p) then with_world w (Shard_identify m s3)
                      else Inr (s3, w))
              | _ \<Rightarrow> Inr (s2, w)) = Inr (sh1, w1)"
  shows "same_backoff s2 sh1"
proof (cases "packet_op p")
  case EVENT
  with assms show ?thesis by (auto simp: same_backoff_refl split: sum.splits)
next
  case HEARTBEAT
  with assms show ?thesis by (auto simp: with_world_def split: sum.splits dest: heartbeat_same)
next
  case HEARTBEAT_ACK
  with assms show ?thesis by (auto simp: same_backoff_def backoff_view_def)
next
  case HELLO
  define s3 where "s3 = (case d_heartbeat_interval (packet_d p) of
                               None \<Rightarrow> s2
                             | Some hb \<Rightarrow>
                                 if hb = 0 then s2
                                 else
                                   let s2c = (case heartbeatInterval s2 of
                                                None \<Rightarrow> s2
                                              | Some h \<Rightarrow> s2\<lparr>trace := trace s2 @ [ClearInterval h]\<rparr>)
                                   in s2c\<lparr>heartbeatInterval := Some hb,
                                          trace := trace s2c @ [SetInterval hb]\<rparr>)"
  have a: "same_backoff s2 s3" unfolding s3_def by (rule hello_timer_same)
  from assms HELLO have
    "(if string_truthy (sessionId s3) then
        with_world w
          (Shard_sendWebsocketMessage
             (Frame RESUME (ResumeData (token (client m)) (sessionId s3) (sequence s3))) s3)
      else
        (case Shard_identify m s3 of
           Inl e \<Rightarrow> Inl e
         | Inr s4 \<Rightarrow> with_world w (Shard_sendHeartbeat s4))) = Inr (sh1, w1)"
    by (simp add: s3_def [symmetric] Let_def)
  then have "same_backoff s3 sh1"
    by (auto simp: with_world_def split: if_splits sum.splits
        dest: send_same intro: same_backoff_trans [OF identify_same heartbeat_same])
  with a show ?thesis by (rule same_backoff_trans)
next
  case INVALID_SESSION
  have a: "same_backoff s2 (s2\<lparr>sessionId := None, sequence := 0\<rparr>)"
    by (simp add: same_backoff_def backoff_view_def)
  from assms INVALID_SESSION have
    "(if d_truthy (packet_d p)
      then with_world w (Shard_identify m (s2\<lparr>sessionId := None, sequence := 0\<rparr>))
      else Inr (s2\<lparr>sessionId := None, sequence := 0\<rparr>, w)) = Inr (sh1, w1)"
    by (simp add: Let_def)
  then have "same_backoff (s2\<lparr>sessionId := None, sequence := 0\<rparr>) sh1"
    by (auto simp: with_world_def same_backoff_refl split: if_splits sum.splits dest: identify_same)
  with a show ?thesis by (rule same_backoff_trans)
next
  case IDENTIFY
  with assms show ?thesis by (auto simp: same_backoff_refl)
next
  case RESUME
  with assms show ?thesis by (auto simp: same_backoff_refl)
next
  case (OTHER n)
  with assms show ?thesis by (auto simp: same_backoff_refl)
qed

lemma packetReceive_same:
  assumes "Shard_packetReceive m PacketHandlers now p sh w = Inr (sh1, w1)"
  shows "same_backoff sh sh1"
proof -
  define s1 where
    "s1 = (case packet_s p of None \<Rightarrow> sh | Some n \<Rightarrow> if n \<noteq> 0 then sh\<lparr>sequence := n\<rparr> else sh)"
  define r1 where
    "r1 = (if packet_t p = Some ''READY'' then
              (case d_session_id (packet_d p) of
                 Inl e \<Rightarrow> Inl e
               | Inr sid \<Rightarrow>
                   Shard_sendHeartbeat
                     (s1\<lparr>sessionId := sid, status := READY, lastHeartbeatAcked := True\<rparr>))
            else Inr s1)"
  have a: "same_backoff sh s1" unfolding s1_def by (rule sequence_step_same)
  from assms obtain s2 where r: "r1 = Inr s2"
    by (cases r1) (simp_all add: Shard_packetReceive_def Let_def s1_def [symmetric] r1_def [symmetric])
  have b: "same_backoff s1 s2" using r unfolding r1_def by (rule ready_step_same)
  have c: "same_backoff s2 sh1"
  proof (rule op_step_same [where p = p and m = m and PacketHandlers = PacketHandlers and w = w
          and now = now and ?w1.0 = w1])
    from assms r show "(case packet_op p of
                EVENT \<Rightarrow>
                  (case GatewayManager_handlePacket m PacketHandlers (Some p) s2 w of
                     Inl e \<Rightarrow> Inl e
                   | Inr (b, w1) \<Rightarrow> Inr (s2, w1))
              | HEARTBEAT \<Rightarrow> with_world w (Shard_sendHeartbeat s2)
              | HEARTBEAT_ACK \<Rightarrow>
                  Inr (s2\<lparr>lastHeartbeatAck := Some True, lastHeartbeatReceived := Some now\<rparr>, w)
              | HELLO \<Rightarrow>
                  (let s3 = (case d_heartbeat_interval (packet_d p) of
                               None \<Rightarrow> s2
                             | Some hb \<Rightarrow>
                                 if hb = 0 then s2
                                 else
                                   let s2c = (case heartbeatInterval s2 of
                                                None \<Rightarrow> s2
                                              | Some h \<Rightarrow> s2\<lparr>trace := trace s2 @ [ClearInterval h]\<rparr>)
                                   in s2c\<lparr>heartbeatInterval := Some hb,
                                          trace := trace s2c @ [SetInterval hb]\<rparr>)
                   in if string_truthy (sessionId s3) then
                        with_world w
                          (Shard_sendWebsocketMessage
                             (Frame RESUME
                                (ResumeData (token (client m)) (sessionId s3) (sequence s3)))
                             s3)
                      else
                        (case Shard_identify m s3 of
                           Inl e \<Rightarrow> Inl e
                         | Inr s4 \<Rightarrow> with_world w (Shard_sendHeartbeat s4)))
              | INVALID_SESSION \<Rightarrow>
                  (let s3 = s2\<lparr>sessionId := None, sequence := 0\<rparr>
                   in if d_truthy (packet_d p) then with_world w (Shard_identify m s3)
                      else Inr (s3, w))
              | _ \<Rightarrow> Inr (s2, w)) = Inr (sh1, w1)"
      unfolding Shard_packetReceive_def Let_def s1_def [symmetric] r1_def [symmetric]
      by simp
  qed
  from a b c show ?thesis by (blast intro: same_backoff_trans)
qed


lemma connect_inv: "backoff_inv sh \<Longrightarrow> backoff_inv (Shard_connect m sh)"
  by (auto simp: backoff_inv_def Shard_connect_def backoff_untouched_def backoff_once_def
      reconnect_delays_append split: if_splits)

lemma disconnect_inv: "backoff_inv sh \<Longrightarrow> backoff_inv (Shard_disconnect m reconnect term sh)"
  by (auto simp: backoff_inv_def Shard_disconnect_def Let_def backoff_untouched_def
      backoff_once_def reconnect_delays_append split: if_splits option.splits)

lemma closed_status_inv:
  "backoff_inv sh \<Longrightarrow>
   backoff_inv (sh\<lparr>status := CLOSED, trace := trace sh @ [Emit (ConnectionClosed code reason i)]\<rparr>)"
  by (auto simp: backoff_inv_def backoff_untouched_def backoff_once_def reconnect_delays_append
      split: if_splits)

lemma close_inv:
  "backoff_inv sh \<Longrightarrow> backoff_inv (Shard_websocketCloseConnection m term code reason sh)"
  unfolding Shard_websocketCloseConnection_def by (intro disconnect_inv closed_status_inv)

lemma error_inv: "backoff_inv sh \<Longrightarrow> backoff_inv (Shard_websocketError err sh)"
  by (auto simp: backoff_inv_def Shard_websocketError_def backoff_untouched_def backoff_once_def
      reconnect_delays_append split: if_splits)

lemma open_inv: "backoff_inv sh \<Longrightarrow> backoff_inv (Shard_websocketConnectionOpen sh)"
  by (auto simp: backoff_inv_def Shard_websocketConnectionOpen_def backoff_untouched_def
      backoff_once_def reconnect_delays_append split: if_splits)

lemma same_backoff_inv: "backoff_inv sh \<Longrightarrow> same_backoff sh sh1 \<Longrightarrow> backoff_inv sh1"
  by (auto simp: backoff_inv_def same_backoff_def backoff_view_def backoff_untouched_def
      backoff_once_def split: if_splits)

text \<open>
  In every shard a run reaches the attempt count is at most 1, the only reconnect ever
  scheduled is the one after 3000 ms, and a shard that holds a socket has counted no attempt.
\<close>

lemma reachable_backoff_inv:
  "reachable m PacketHandlers sh \<Longrightarrow> backoff_inv sh"
proof (induction rule: reachable.induct)
  case (constructed i)
  show ?case by (simp add: backoff_inv_def backoff_untouched_def Shard_def)
next
  case (packet sh now p w sh1 w1)
  then show ?case by (blast intro: same_backoff_inv packetReceive_same)
qed (blast intro: connect_inv close_inv error_inv open_inv disconnect_inv same_backoff_inv
       identify_same heartbeat_same send_same)+

lemma reachable_backoff_bounds:
  assumes "reachable m PacketHandlers sh"
  shows "reconnectAttempts sh \<le> 1
       \<and> (reconnect_delays (trace sh) = [] \<or> reconnect_delays (trace sh) = [3000])
       \<and> (connection sh = None \<or> reconnectAttempts sh = 0)"
  using reachable_backoff_inv [OF assms]
  by (auto simp: backoff_inv_def backoff_untouched_def backoff_once_def split: if_splits)

text \<open>
  Claim C8 (backoff growth: from \<open>reconnectInterval = 3000\<close> and \<open>reconnectAttempts = 0\<close>
  three consecutive failed reconnects are scheduled after 3000, 6000 and 9000 ms and leave
  \<open>reconnectAttempts = 3\<close>; at \<open>reconnectAttempts >= 5\<close> the terminal notification is emitted
  and no reconnect scheduled). The code, on an open shard whose socket closes with
  auto-reconnect on: the close handler schedules \<open>connect ()\<close> after 3000 ms and counts one
  attempt. When the timer fires, \<open>connect ()\<close> does nothing (the status is CLOSED), so the
  shard has no socket, and every further \<open>disconnect (true)\<close> returns at once: after two more
  rounds of \<open>connect ()\<close> and \<open>disconnect (true)\<close> the shard is as the first close left it,
  with the one reconnect at 3000 ms scheduled, the interval at 6000 and the attempt count at 1.
\<close>

theorem backoff_stops_after_first_reconnect:
  "Shard_websocketCloseConnection example_manager None 1006 [] open_shard =
     \<lparr>shard_id = 0, sequence = - 1, sessionId = None, lastHeartbeatAcked = True,
      lastHeartbeatAck = Some True, lastHeartbeatReceived = None, heartbeatInterval = None,
      reconnectInterval = 6000, reconnectAttempts = 1, status = CLOSED, connection = None,
      trace = [NewWebsocket (websocketURL example_manager), Emit (Connect 0),
               Emit (ConnectionClosed 1006 [] 0), Terminate, Emit (Disconnect ''ASKED''),
               SetTimeoutConnect 3000]\<rparr>
   \<and> Shard_disconnect example_manager True None
       (Shard_connect example_manager
          (Shard_websocketCloseConnection example_manager None 1006 [] open_shard)) =
     Shard_websocketCloseConnection example_manager None 1006 [] open_shard
   \<and> Shard_disconnect example_manager True None
       (Shard_connect example_manager
          (Shard_disconnect example_manager True None
             (Shard_connect example_manager
                (Shard_websocketCloseConnection example_manager None 1006 [] open_shard)))) =
     Shard_websocketCloseConnection example_manager None 1006 [] open_shard
   \<and> reconnect_delays
       (trace (Shard_websocketCloseConnection example_manager None 1006 [] open_shard)) = [3000]"
  by (simp add: shard_defs)

section \<open>GatewayManager: dispatch\<close>

text \<open>
  Claim C9 (\<open>handlePacket\<close>). For an absent packet the result is \<open>false\<close> and nothing else
  happens. For a packet whose event type is in \<open>blockedEvents\<close> the result is \<open>true\<close> and the
  state the handlers act on is unchanged, whatever the registry holds: no handler is called.
  For any other packet: with no handler registered under its event type the result is \<open>true\<close>
  and the state is unchanged; with a handler registered, that handler is called with the
  client, the packet and the shard, and \<open>handlePacket\<close> returns \<open>true\<close> when the handler
  returns (an error the handler throws propagates).
\<close>

theorem handlePacket_dispatch:
  "GatewayManager_handlePacket m PacketHandlers None sh w = Inr (False, w)
   \<and> (includes_t (blockedEvents (options (client m))) (packet_t p) \<longrightarrow>
        GatewayManager_handlePacket m PacketHandlers (Some p) sh w = Inr (True, w))
   \<and> (\<not> includes_t (blockedEvents (options (client m))) (packet_t p) \<longrightarrow>
        PacketHandlers (property_key (packet_t p)) = None \<longrightarrow>
        GatewayManager_handlePacket m PacketHandlers (Some p) sh w = Inr (True, w))
   \<and> (\<not> includes_t (blockedEvents (options (client m))) (packet_t p) \<longrightarrow>
        PacketHandlers (property_key (packet_t p)) = Some event \<longrightarrow>
        GatewayManager_handlePacket m PacketHandlers (Some p) sh w =
          (case event (client m) p sh w of Inl e \<Rightarrow> Inl e | Inr w1 \<Rightarrow> Inr (True, w1)))"
  by (simp add: GatewayManager_handlePacket_def)

theorem handlePacket_dispatch_witness:
  "GatewayManager_handlePacket example_manager counting_handlers None open_shard 0 =
     Inr (False, 0)
   \<and> GatewayManager_handlePacket example_manager counting_handlers
        (Some (event_packet ''TYPING_START'')) open_shard 0 = Inr (True, 0)
   \<and> GatewayManager_handlePacket example_manager counting_handlers
        (Some (event_packet ''GUILD_CREATE'')) open_shard 0 = Inr (True, 0)
   \<and> GatewayManager_handlePacket example_manager counting_handlers
        (Some (event_packet ''MESSAGE_CREATE'')) open_shard 0 = Inr (True, 1)"
proof -
  have blocked:
    "includes_t (blockedEvents (options (client example_manager)))
       (packet_t (event_packet ''TYPING_START''))"
    by (simp add: includes_t_def example_manager_def event_packet_def)
  have free1:
    "\<not> includes_t (blockedEvents (options (client example_manager)))
         (packet_t (event_packet ''GUILD_CREATE''))"
    by (simp add: includes_t_def example_manager_def event_packet_def)
  have none1: "counting_handlers (property_key (packet_t (event_packet ''GUILD_CREATE''))) = None"
    by (simp add: counting_handlers_def property_key_def event_packet_def)
  have free2:
    "\<not> includes_t (blockedEvents (options (client example_manager)))
         (packet_t (event_packet ''MESSAGE_CREATE''))"
    by (simp add: includes_t_def example_manager_def event_packet_def)
  have some2:
    "counting_handlers (property_key (packet_t (event_packet ''MESSAGE_CREATE''))) =
       Some (\<lambda>c p sh n. Inr (Suc n))"
    by (simp add: counting_handlers_def property_key_def event_packet_def)
  note a = handlePacket_dispatch
    [of example_manager counting_handlers open_shard 0 "event_packet ''TYPING_START''"]
  note b = handlePacket_dispatch
    [of example_manager counting_handlers open_shard 0 "event_packet ''GUILD_CREATE''"]
  note c = handlePacket_dispatch
    [of example_manager counting_handlers open_shard 0 "event_packet ''MESSAGE_CREATE''"
        "\<lambda>c p sh n. Inr (Suc n)"]
  from a blocked b free1 none1 c free2 some2 show ?thesis by simp
qed

section \<open>Shard: the sequence after a session is invalidated\<close>

lemma sendWebsocketMessage_sequence:
  "Shard_sendWebsocketMessage data sh = Inr sh1 \<Longrightarrow> sequence sh1 = sequence sh"
  by (auto simp: Shard_sendWebsocketMessage_def split: if_splits option.splits)

lemma disconnect_sequence:
  "sequence (Shard_disconnect m reconnect term sh) =
     (if connection sh \<noteq> None \<and> term = None \<and> sequence sh \<noteq> 0 then - 1 else sequence sh)"
  by (simp add: Shard_disconnect_def Let_def split: option.splits)

lemma packetReceive_invalid_session:
  assumes "Shard_packetReceive m PacketHandlers now p sh w = Inr (sh1, w1)"
    and "packet_op p = INVALID_SESSION"
  shows "sequence sh1 = 0"
  using assms
  by (auto simp: Shard_packetReceive_def Let_def with_world_def Shard_identify_def
      split: if_splits sum.splits dest: sendWebsocketMessage_sequence)

lemma packetReceive_invalid_session_returns:
  assumes "packet_op p = INVALID_SESSION" and "packet_t p \<noteq> Some ''READY''"
    and "connection sh \<noteq> None"
  shows "\<exists>sh1. Shard_packetReceive m PacketHandlers now p sh w = Inr (sh1, w)"
  using assms
  by (auto simp: Shard_packetReceive_def Let_def with_world_def Shard_identify_def
      Shard_sendWebsocketMessage_def split: if_splits sum.splits option.splits)

text \<open>
  Claim C10 (the sequence after INVALID_SESSION). Whenever \<open>packetReceive\<close> returns from an
  INVALID_SESSION frame, the shard's sequence is 0, and it is still 0 after a \<open>disconnect\<close>
  that follows, whatever its argument and whether or not \<open>terminate ()\<close> throws.
  \<open>packetReceive\<close> does return from such a frame when the shard holds a socket and the
  frame's event type is not READY. The constructor sets the sequence to -1, and
  \<open>disconnect\<close> sets it to -1 exactly when it runs past \<open>terminate ()\<close> with a nonzero
  sequence, leaving it alone otherwise.
\<close>

theorem invalid_session_sequence_zero:
  assumes "packet_op p = INVALID_SESSION"
  shows "(\<forall>sh1 w1. Shard_packetReceive m PacketHandlers now p sh w = Inr (sh1, w1) \<longrightarrow>
            sequence sh1 = 0 \<and> sequence (Shard_disconnect m reconnect term sh1) = 0)
       \<and> (connection sh \<noteq> None \<longrightarrow> packet_t p \<noteq> Some ''READY'' \<longrightarrow>
            (\<exists>sh1. Shard_packetReceive m PacketHandlers now p sh w = Inr (sh1, w)))
       \<and> sequence (Shard i) = - 1
       \<and> sequence (Shard_disconnect m reconnect term sh2) =
           (if connection sh2 \<noteq> None \<and> term = None \<and> sequence sh2 \<noteq> 0
            then - 1 else sequence sh2)"
  using assms packetReceive_invalid_session [of m PacketHandlers now p sh w]
    packetReceive_invalid_session_returns [of p sh m PacketHandlers now w]
  by (simp add: disconnect_sequence Shard_def)

theorem invalid_session_sequence_zero_witness:
  "Shard_packetReceive example_manager counting_handlers 0 invalid_session_packet
     resumable_shard 0 =
     Inr (resumable_shard
            \<lparr>sessionId := None, sequence := 0,
             trace := trace resumable_shard @
               [Send (Frame IDENTIFY
                  (IdentifyData ''token'' 13827 (0, 1) 9 (''linux'', ''hitomi'', ''hitomi'')))]\<rparr>, 0)
   \<and> sequence (Shard_disconnect example_manager True None
        (resumable_shard
            \<lparr>sessionId := None, sequence := 0,
             trace := trace resumable_shard @
               [Send (Frame IDENTIFY
                  (IdentifyData ''token'' 13827 (0, 1) 9 (''linux'', ''hitomi'', ''hitomi'')))]\<rparr>)) = 0
   \<and> sequence (Shard_disconnect example_manager True None resumable_shard) = - 1
   \<and> sequence (Shard 0) = - 1"
proof -
  have op: "packet_op invalid_session_packet = INVALID_SESSION"
    by (simp add: invalid_session_packet_def)
  have run:
    "Shard_packetReceive example_manager counting_handlers 0 invalid_session_packet
       resumable_shard 0 =
     Inr (resumable_shard
            \<lparr>sessionId := None, sequence := 0,
             trace := trace resumable_shard @
               [Send (Frame IDENTIFY
                  (IdentifyData ''token'' 13827 (0, 1) 9 (''linux'', ''hitomi'', ''hitomi'')))]\<rparr>, 0)"
    by (simp add: Shard_packetReceive_def with_world_def example_defs shard_defs)
  have pre: "connection resumable_shard \<noteq> None \<and> sequence resumable_shard \<noteq> 0"
    by (simp add: example_defs shard_defs)
  note t = invalid_session_sequence_zero
    [OF op, of example_manager counting_handlers 0 resumable_shard 0 True None 0 resumable_shard]
  from t run pre show ?thesis by simp
qed

end
